theory Spec2Isabelle
  imports Main "HOL-Library.AList"
begin

unbundle bit_operations_syntax

section \<open>Python values\<close>

text \<open>
  A Python \<open>str\<close> is a sequence of Unicode code points; it is modelled as the list of
  their numbers. \<open>str\<close> turns an ASCII literal into such a list.
\<close>

type_synonym pystr = "nat list"

definition str :: "string \<Rightarrow> pystr" where
  "str cs = map of_char cs"

text \<open>
  \<open>STOCK_DATA\<close> is annotated \<open>Dict[str, int]\<close>, but \<open>load_data\<close> assigns to it whatever
  \<open>json.load\<close> returns, and \<open>add_item\<close> and \<open>remove_item\<close> test the types of their
  arguments at run time. So the values are those of Python that can occur: the ones JSON
  can denote. A \<open>dict\<close> keeps its insertion order and is an association list; its keys are
  strings, because keys come from \<open>add_item\<close> (which stores under a \<open>str\<close> only) and from
  JSON objects. A float is kept as the literal it was read from; its numeric value is not
  modelled.
\<close>

datatype pyval =
    PNone
  | PBool bool
  | PInt int
  | PFloat pystr
  | PStr pystr
  | PList "pyval list"
  | PDict "(pystr \<times> pyval) list"

text \<open>
  The exceptions that the modelled operations can raise. \<open>FloatArithmetic\<close> is no
  exception of Python: it marks an arithmetic operation or a comparison on a float, whose
  result this model does not compute.
\<close>

datatype exn =
    TypeError
  | AttributeError
  | KeyError
  | FileNotFoundError
  | OSError
  | UnicodeDecodeError
  | JSONDecodeError
  | RecursionError
  | FloatArithmetic

text \<open>\<open>isinstance(v, int)\<close>, with the integer: \<open>bool\<close> is a subclass of \<open>int\<close>.\<close>

fun as_int :: "pyval \<Rightarrow> int option" where
  "as_int (PInt i) = Some i"
| "as_int (PBool b) = Some (if b then 1 else 0)"
| "as_int _ = None"

text \<open>\<open>v + n\<close>, \<open>v - n\<close>, \<open>v < n\<close> and \<open>v <= n\<close> for an integer \<open>n\<close>.\<close>

fun py_add :: "pyval \<Rightarrow> int \<Rightarrow> exn + pyval" where
  "py_add (PInt a) n = Inr (PInt (a + n))"
| "py_add (PBool b) n = Inr (PInt ((if b then 1 else 0) + n))"
| "py_add (PFloat f) n = Inl FloatArithmetic"
| "py_add _ n = Inl TypeError"

fun py_sub :: "pyval \<Rightarrow> int \<Rightarrow> exn + pyval" where
  "py_sub (PInt a) n = Inr (PInt (a - n))"
| "py_sub (PBool b) n = Inr (PInt ((if b then 1 else 0) - n))"
| "py_sub (PFloat f) n = Inl FloatArithmetic"
| "py_sub _ n = Inl TypeError"

fun py_lt :: "pyval \<Rightarrow> int \<Rightarrow> exn + bool" where
  "py_lt (PInt a) n = Inr (a < n)"
| "py_lt (PBool b) n = Inr ((if b then 1 else 0) < n)"
| "py_lt (PFloat f) n = Inl FloatArithmetic"
| "py_lt _ n = Inl TypeError"

fun py_le :: "pyval \<Rightarrow> int \<Rightarrow> exn + bool" where
  "py_le (PInt a) n = Inr (a \<le> n)"
| "py_le (PBool b) n = Inr ((if b then 1 else 0) \<le> n)"
| "py_le (PFloat f) n = Inl FloatArithmetic"
| "py_le _ n = Inl TypeError"

text \<open>\<open>k in s\<close> for strings: \<open>k\<close> occurs in \<open>s\<close> as a contiguous run.\<close>

fun starts_with :: "pystr \<Rightarrow> pystr \<Rightarrow> bool" where
  "starts_with s [] = True"
| "starts_with [] (c # k) = False"
| "starts_with (d # s) (c # k) = (d = c \<and> starts_with s k)"

fun substring :: "pystr \<Rightarrow> pystr \<Rightarrow> bool" where
  "substring k [] = (k = [])"
| "substring k (c # s) = (starts_with (c # s) k \<or> substring k s)"

text \<open>
  \<open>k in v\<close>, \<open>v[k]\<close>, \<open>v[k] = x\<close> and \<open>del v[k]\<close> for a string \<open>k\<close>. In a list, a string
  is equal to string elements only. Only a \<open>dict\<close> is subscripted by a string.
\<close>

fun py_contains :: "pyval \<Rightarrow> pystr \<Rightarrow> exn + bool" where
  "py_contains (PDict d) k = Inr (map_of d k \<noteq> None)"
| "py_contains (PList xs) k = Inr (PStr k \<in> set xs)"
| "py_contains (PStr s) k = Inr (substring k s)"
| "py_contains _ k = Inl TypeError"

fun py_getitem :: "pyval \<Rightarrow> pystr \<Rightarrow> exn + pyval" where
  "py_getitem (PDict d) k = (case map_of d k of None \<Rightarrow> Inl KeyError | Some v \<Rightarrow> Inr v)"
| "py_getitem _ k = Inl TypeError"

fun py_setitem :: "pyval \<Rightarrow> pystr \<Rightarrow> pyval \<Rightarrow> exn + pyval" where
  "py_setitem (PDict d) k x = Inr (PDict (AList.update k x d))"
| "py_setitem _ k x = Inl TypeError"

fun py_delitem :: "pyval \<Rightarrow> pystr \<Rightarrow> exn + pyval" where
  "py_delitem (PDict d) k =
     (case map_of d k of None \<Rightarrow> Inl KeyError | Some v \<Rightarrow> Inr (PDict (AList.delete k d)))"
| "py_delitem _ k = Inl TypeError"

text \<open>\<open>v.get(k, 0)\<close>: only a \<open>dict\<close> has the method.\<close>

fun py_get0 :: "pyval \<Rightarrow> pystr \<Rightarrow> exn + pyval" where
  "py_get0 (PDict d) k = (case map_of d k of None \<Rightarrow> Inr (PInt 0) | Some v \<Rightarrow> Inr v)"
| "py_get0 _ k = Inl AttributeError"

section \<open>The JSON encoder: \<open>json.dump(obj, f, indent=2)\<close>\<close>

text \<open>
  \<open>save_data\<close> and \<open>load_data\<close> call the standard library's \<open>json.dump\<close> and \<open>json.load\<close>.
  They are modelled after CPython's \<open>json/encoder.py\<close>, \<open>json/decoder.py\<close> and
  \<open>json/scanner.py\<close>, for the values of type \<open>pyval\<close>. With \<open>indent=2\<close> the encoder is
  \<open>_make_iterencode\<close>, with \<open>ensure_ascii\<close> on, the item separator \<open>","\<close> and the key
  separator \<open>": "\<close>. The text of a float (\<open>float.__repr__\<close>) is not modelled. An \<open>int\<close> has
  no bound here; the limit that recent interpreters put on the digits of a conversion is
  left out.
\<close>

text \<open>
  \<open>py_encode_basestring_ascii\<close>: \<open>hex4\<close> is the format \<open>{0:04x}\<close>, \<open>escape_char\<close> the
  function \<open>replace\<close> on one character (the characters outside \<open>' '..'~'\<close>, the quote and
  the backslash are the ones the pattern \<open>ESCAPE_ASCII\<close> matches).
\<close>

definition hex_digit :: "nat \<Rightarrow> nat" where
  "hex_digit d = (if d < 10 then 48 + d else 87 + d)"

definition hex4 :: "nat \<Rightarrow> pystr" where
  "hex4 n = [hex_digit (n div 4096 mod 16), hex_digit (n div 256 mod 16),
             hex_digit (n div 16 mod 16), hex_digit (n mod 16)]"

definition escape_char :: "nat \<Rightarrow> pystr" where
  "escape_char c =
     (if c = 92 then [92, 92]
      else if c = 34 then [92, 34]
      else if c = 8 then [92, 98]
      else if c = 12 then [92, 102]
      else if c = 10 then [92, 110]
      else if c = 13 then [92, 114]
      else if c = 9 then [92, 116]
      else if c < 32 then [92, 117] @ hex4 c
      else if c \<le> 126 then [c]
      else if c < 0x10000 then [92, 117] @ hex4 c
      else (let n = c - 0x10000;
                s1 = 0xd800 OR (drop_bit 10 n AND 0x3ff);
                s2 = 0xdc00 OR (n AND 0x3ff)
            in [92, 117] @ hex4 s1 @ [92, 117] @ hex4 s2))"

definition encode_basestring_ascii :: "pystr \<Rightarrow> pystr" where
  "encode_basestring_ascii s = [34] @ concat (map escape_char s) @ [34]"

text \<open>\<open>int.__repr__\<close>: the decimal digits, after a minus sign for a negative number\<close>

function digits :: "nat \<Rightarrow> pystr" where
  "digits n = (if n < 10 then [48 + n] else digits (n div 10) @ [48 + n mod 10])"
  by pat_completeness auto
termination
  by (relation "measure (\<lambda>n. n)") auto

declare digits.simps [simp del]

definition intstr :: "int \<Rightarrow> pystr" where
  "intstr i = (if i < 0 then 45 # digits (nat (- i)) else digits (nat i))"

text \<open>
  \<open>_iterencode\<close>, \<open>_iterencode_list\<close> and \<open>_iterencode_dict\<close> at a level of indentation; the
  two loops carry the flag \<open>first\<close> and return the text of the items with the separators
  between them.
\<close>

definition newline_indent :: "nat \<Rightarrow> pystr" where
  "newline_indent level = 10 # replicate (2 * level) 32"

fun iterencode :: "nat \<Rightarrow> pyval \<Rightarrow> exn + pystr"
  and iterencode_list :: "nat \<Rightarrow> bool \<Rightarrow> pyval list \<Rightarrow> exn + pystr"
  and iterencode_dict :: "nat \<Rightarrow> bool \<Rightarrow> (pystr \<times> pyval) list \<Rightarrow> exn + pystr"
where
  "iterencode level (PStr s) = Inr (encode_basestring_ascii s)"
| "iterencode level PNone = Inr (str ''null'')"
| "iterencode level (PBool b) = Inr (if b then str ''true'' else str ''false'')"
| "iterencode level (PInt i) = Inr (intstr i)"
| "iterencode level (PFloat f) = Inl FloatArithmetic"
| "iterencode level (PList xs) =
     (if xs = [] then Inr (str ''[]'')
      else (case iterencode_list (level + 1) True xs of
              Inl e \<Rightarrow> Inl e
            | Inr items \<Rightarrow>
                Inr ([91] @ newline_indent (level + 1) @ items @ newline_indent level @ [93])))"
| "iterencode level (PDict d) =
     (if d = [] then Inr (str ''{}'')
      else (case iterencode_dict (level + 1) True d of
              Inl e \<Rightarrow> Inl e
            | Inr items \<Rightarrow>
                Inr ([123] @ newline_indent (level + 1) @ items @ newline_indent level @ [125])))"
| "iterencode_list level first [] = Inr []"
| "iterencode_list level first (value # lst) =
     (case iterencode level value of
        Inl e \<Rightarrow> Inl e
      | Inr chunk \<Rightarrow>
          (case iterencode_list level False lst of
             Inl e \<Rightarrow> Inl e
           | Inr rest \<Rightarrow>
               Inr ((if first then [] else 44 # newline_indent level) @ chunk @ rest)))"
| "iterencode_dict level first [] = Inr []"
| "iterencode_dict level first ((key, value) # items) =
     (case iterencode level value of
        Inl e \<Rightarrow> Inl e
      | Inr chunk \<Rightarrow>
          (case iterencode_dict level False items of
             Inl e \<Rightarrow> Inl e
           | Inr rest \<Rightarrow>
               Inr ((if first then [] else 44 # newline_indent level)
                    @ encode_basestring_ascii key @ [58, 32] @ chunk @ rest)))"



section \<open>The JSON decoder: \<open>json.load(f)\<close>\<close>

text \<open>
  The decoder reads the text from the left; each function returns what it has read and the
  text that remains, where the source returns the index \<open>end\<close>. A \<open>JSONDecodeError\<close> is
  \<open>Inl JSONDecodeError\<close>; the \<open>StopIteration\<close> of \<open>_scan_once\<close> always becomes one in its
  callers. The four hexadecimal digits of \<open>\uXXXX\<close> and the digits of a number are ASCII
  digits, as in the C scanner that CPython runs.
\<close>

text \<open>\<open>WHITESPACE\<close>, decimal digits, hexadecimal digits, and the table \<open>BACKSLASH\<close>\<close>

definition is_ws :: "nat \<Rightarrow> bool" where
  "is_ws c = (c = 32 \<or> c = 9 \<or> c = 10 \<or> c = 13)"

definition skip_ws :: "pystr \<Rightarrow> pystr" where
  "skip_ws s = dropWhile is_ws s"

definition is_digit :: "nat \<Rightarrow> bool" where
  "is_digit c = (48 \<le> c \<and> c \<le> 57)"

definition hex_value :: "nat \<Rightarrow> nat option" where
  "hex_value c =
     (if 48 \<le> c \<and> c \<le> 57 then Some (c - 48)
      else if 97 \<le> c \<and> c \<le> 102 then Some (c - 87)
      else if 65 \<le> c \<and> c \<le> 70 then Some (c - 55)
      else None)"

fun decode_uXXXX :: "pystr \<Rightarrow> nat option" where
  "decode_uXXXX (a # b # c # d # s) =
     (case (hex_value a, hex_value b, hex_value c, hex_value d) of
        (Some x, Some y, Some z, Some w) \<Rightarrow> Some (((x * 16 + y) * 16 + z) * 16 + w)
      | _ \<Rightarrow> None)"
| "decode_uXXXX s = None"

definition backslash :: "nat \<Rightarrow> nat option" where
  "backslash esc =
     (if esc = 34 then Some 34
      else if esc = 92 then Some 92
      else if esc = 47 then Some 47
      else if esc = 98 then Some 8
      else if esc = 102 then Some 12
      else if esc = 110 then Some 10
      else if esc = 114 then Some 13
      else if esc = 116 then Some 9
      else None)"

text \<open>
  \<open>py_scanstring\<close>, from the character after the opening quote, with the list \<open>chunks\<close> of
  what has been decoded; \<open>strict\<close> is true. A \<open>\u\<close> escape of a high surrogate that is
  followed by the \<open>\u\<close> escape of a low surrogate gives one code point.
\<close>

function scanstring :: "pystr \<Rightarrow> pystr \<Rightarrow> exn + (pystr \<times> pystr)" where
  "scanstring chunks [] = Inl JSONDecodeError"
| "scanstring chunks (c # s) =
     (if c = 34 then Inr (chunks, s)
      else if c = 92 then
        (case s of
           [] \<Rightarrow> Inl JSONDecodeError
         | esc # s1 \<Rightarrow>
             if esc \<noteq> 117 then
               (case backslash esc of
                  None \<Rightarrow> Inl JSONDecodeError
                | Some char \<Rightarrow> scanstring (chunks @ [char]) s1)
             else
               (case decode_uXXXX s1 of
                  None \<Rightarrow> Inl JSONDecodeError
                | Some uni \<Rightarrow>
                    if 0xd800 \<le> uni \<and> uni \<le> 0xdbff \<and> take 2 (drop 4 s1) = [92, 117] then
                      (case decode_uXXXX (drop 6 s1) of
                         None \<Rightarrow> Inl JSONDecodeError
                       | Some uni2 \<Rightarrow>
                           if 0xdc00 \<le> uni2 \<and> uni2 \<le> 0xdfff then
                             scanstring
                               (chunks @ [0x10000 + (push_bit 10 (uni - 0xd800) OR (uni2 - 0xdc00))])
                               (drop 10 s1)
                           else scanstring (chunks @ [uni]) (drop 4 s1))
                    else scanstring (chunks @ [uni]) (drop 4 s1)))
      else if c < 32 then Inl JSONDecodeError
      else scanstring (chunks @ [c]) s)"
  by pat_completeness auto
termination
  by (relation "measure (\<lambda>(chunks, s). length s)") auto

text \<open>\<open>int(integer)\<close> on a run of decimal digits\<close>

definition parse_int :: "pystr \<Rightarrow> int" where
  "parse_int ds = int (foldl (\<lambda>a c. 10 * a + (c - 48)) 0 ds)"

text \<open>
  \<open>NUMBER_RE\<close> and what \<open>_scan_once\<close> does with its groups: the value and the rest of the
  text, or \<open>None\<close> when there is no match. A float keeps its literal.
\<close>

definition match_number :: "pystr \<Rightarrow> (pyval \<times> pystr) option" where
  "match_number s =
     (let (sign, s1) = (case s of c # t \<Rightarrow> if c = 45 then ([45], t) else ([], s) | [] \<Rightarrow> ([], s)) in
      case s1 of
        [] \<Rightarrow> None
      | c # t \<Rightarrow>
          if \<not> is_digit c then None
          else
            let (integer, s2) = (if c = 48 then ([c], t)
                                 else (c # takeWhile is_digit t, dropWhile is_digit t));
                (frac, s3) = (case s2 of
                                p # u \<Rightarrow> if p = 46 \<and> takeWhile is_digit u \<noteq> []
                                         then (p # takeWhile is_digit u, dropWhile is_digit u)
                                         else ([], s2)
                              | [] \<Rightarrow> ([], s2));
                (exp, s4) = (case s3 of
                               e # u \<Rightarrow>
                                 if e = 101 \<or> e = 69 then
                                   (let (sg, v) = (case u of
                                                     g # w \<Rightarrow> if g = 45 \<or> g = 43 then ([g], w) else ([], u)
                                                   | [] \<Rightarrow> ([], u))
                                    in if takeWhile is_digit v \<noteq> []
                                       then (e # sg @ takeWhile is_digit v, dropWhile is_digit v)
                                       else ([], s3))
                                 else ([], s3)
                             | [] \<Rightarrow> ([], s3))
            in if frac \<noteq> [] \<or> exp \<noteq> []
               then Some (PFloat (sign @ integer @ frac @ exp), s4)
               else Some (PInt (if sign = [] then parse_int integer else - parse_int integer), s4))"

definition starts :: "pystr \<Rightarrow> pystr \<Rightarrow> bool" where
  "starts lit s = (take (length lit) s = lit)"

text \<open>\<open>dict(pairs)\<close>: a later pair with the same key replaces the value, in the place of the first.\<close>

definition dict_of_pairs :: "(pystr \<times> pyval) list \<Rightarrow> (pystr \<times> pyval) list" where
  "dict_of_pairs pairs = foldl (\<lambda>d (k, v). AList.update k v d) [] pairs"


text \<open>What \<open>_scan_once\<close> does when the text opens neither an object nor an array.\<close>

definition scan_atom :: "pystr \<Rightarrow> exn + (pyval \<times> pystr)" where
  "scan_atom s =
     (case s of
        [] \<Rightarrow> Inl JSONDecodeError
      | nextchar # t \<Rightarrow>
          if nextchar = 34 then
            (case scanstring [] t of Inl e \<Rightarrow> Inl e | Inr (x, rest) \<Rightarrow> Inr (PStr x, rest))
          else if starts (str ''null'') s then Inr (PNone, drop 4 s)
          else if starts (str ''true'') s then Inr (PBool True, drop 4 s)
          else if starts (str ''false'') s then Inr (PBool False, drop 5 s)
          else
            (case match_number s of
               Some r \<Rightarrow> Inr r
             | None \<Rightarrow>
                 if starts (str ''NaN'') s then Inr (PFloat (str ''NaN''), drop 3 s)
                 else if starts (str ''Infinity'') s then Inr (PFloat (str ''Infinity''), drop 8 s)
                 else if starts (str ''-Infinity'') s then Inr (PFloat (str ''-Infinity''), drop 9 s)
                 else Inl JSONDecodeError))"

text \<open>The key of a member and the colon after it: the key and the text after the colon.\<close>

definition object_key :: "pystr \<Rightarrow> exn + (pystr \<times> pystr)" where
  "object_key s =
     (case scanstring [] s of
        Inl e \<Rightarrow> Inl e
      | Inr (key, s1) \<Rightarrow>
          (case skip_ws s1 of
             [] \<Rightarrow> Inl JSONDecodeError
           | c # s2 \<Rightarrow> if c \<noteq> 58 then Inl JSONDecodeError else Inr (key, skip_ws s2)))"

text \<open>
  After a member: the object ends (\<open>Inr None\<close> and the text after the brace), or a comma
  and the opening quote of the next key follow (\<open>Inr (Some _)\<close>, the text after the quote).
\<close>

datatype 'a after = Closed 'a | More 'a

definition object_next :: "pystr \<Rightarrow> exn + pystr after" where
  "object_next s =
     (case skip_ws s of
        [] \<Rightarrow> Inl JSONDecodeError
      | nextchar # s1 \<Rightarrow>
          if nextchar = 125 then Inr (Closed s1)
          else if nextchar \<noteq> 44 then Inl JSONDecodeError
          else
            (case skip_ws s1 of
               [] \<Rightarrow> Inl JSONDecodeError
             | q # s2 \<Rightarrow> if q \<noteq> 34 then Inl JSONDecodeError else Inr (More s2)))"

definition array_next :: "pystr \<Rightarrow> exn + pystr after" where
  "array_next s =
     (case skip_ws s of
        [] \<Rightarrow> Inl JSONDecodeError
      | nextchar # s1 \<Rightarrow>
          if nextchar = 93 then Inr (Closed s1)
          else if nextchar \<noteq> 44 then Inl JSONDecodeError
          else Inr (More (skip_ws s1)))"

text \<open>
  \<open>_scan_once\<close>, \<open>JSONObject\<close> from the first key on (\<open>object_loop\<close>, after the opening quote
  of a key, with the \<open>pairs\<close> read so far) and \<open>JSONArray\<close> from the first value on
  (\<open>array_loop\<close>). The white space that the source skips through several fast paths is
  skipped by \<open>skip_ws\<close>. The three functions call each other, so they take fuel, one unit
  for each call; \<open>json_loads\<close> gives them more than the length of the text. Running out of
  fuel is \<open>RecursionError\<close>. The recursion limit of the interpreter is not modelled.
\<close>

fun scan_once :: "nat \<Rightarrow> pystr \<Rightarrow> exn + (pyval \<times> pystr)"
  and object_loop :: "nat \<Rightarrow> (pystr \<times> pyval) list \<Rightarrow> pystr \<Rightarrow> exn + (pyval \<times> pystr)"
  and array_loop :: "nat \<Rightarrow> pyval list \<Rightarrow> pystr \<Rightarrow> exn + (pyval \<times> pystr)"
where
  "scan_once 0 s = Inl RecursionError"
| "scan_once (Suc fuel) [] = Inl JSONDecodeError"
| "scan_once (Suc fuel) (nextchar # s) =
     (if nextchar = 123 then
        (case skip_ws s of
           [] \<Rightarrow> Inl JSONDecodeError
         | c # t \<Rightarrow>
             if c = 125 then Inr (PDict [], t)
             else if c = 34 then object_loop fuel [] t
             else Inl JSONDecodeError)
      else if nextchar = 91 then
        (case skip_ws s of
           [] \<Rightarrow> Inl JSONDecodeError
         | c # t \<Rightarrow> if c = 93 then Inr (PList [], t) else array_loop fuel [] (c # t))
      else scan_atom (nextchar # s))"
| "object_loop 0 pairs s = Inl RecursionError"
| "object_loop (Suc fuel) pairs s =
     (case object_key s of
        Inl e \<Rightarrow> Inl e
      | Inr (key, s1) \<Rightarrow>
          (case scan_once fuel s1 of
             Inl e \<Rightarrow> Inl e
           | Inr (value, s2) \<Rightarrow>
               (case object_next s2 of
                  Inl e \<Rightarrow> Inl e
                | Inr (Closed s3) \<Rightarrow> Inr (PDict (dict_of_pairs (pairs @ [(key, value)])), s3)
                | Inr (More s3) \<Rightarrow> object_loop fuel (pairs @ [(key, value)]) s3)))"
| "array_loop 0 values s = Inl RecursionError"
| "array_loop (Suc fuel) values s =
     (case scan_once fuel s of
        Inl e \<Rightarrow> Inl e
      | Inr (value, s1) \<Rightarrow>
          (case array_next s1 of
             Inl e \<Rightarrow> Inl e
           | Inr (Closed s2) \<Rightarrow> Inr (PList (values @ [value]), s2)
           | Inr (More s2) \<Rightarrow> array_loop fuel (values @ [value]) s2))"

text \<open>
  \<open>json.loads\<close> on the text of the file: the test for a byte order mark, then \<open>decode\<close>,
  which refuses text after the value.
\<close>

definition json_loads :: "pystr \<Rightarrow> exn + pyval" where
  "json_loads s =
     (if starts [0xfeff] s then Inl JSONDecodeError
      else (case scan_once (Suc (length s)) (skip_ws s) of
              Inl e \<Rightarrow> Inl e
            | Inr (obj, rest) \<Rightarrow> if skip_ws rest = [] then Inr obj else Inl JSONDecodeError))"






section \<open>The stock ledger\<close>

text \<open>
  Every operation takes the value of the global \<open>STOCK_DATA\<close> and returns what the call
  does (the value returned, or the exception that leaves the function) together with the
  value of \<open>STOCK_DATA\<close> afterwards. The calls to \<open>logging\<close> and the \<open>logs\<close> list of
  \<open>add_item\<close> do not touch \<open>STOCK_DATA\<close> and are left out.
\<close>

text \<open>
  \<open>not item or not isinstance(item, str)\<close>: for a string this is emptiness; for every other
  value the second disjunct holds (the truth test of these values raises nothing).
\<close>

fun invalid_item :: "pyval \<Rightarrow> bool" where
  "invalid_item (PStr s) = (s = [])"
| "invalid_item _ = True"

text \<open>\<open>not isinstance(qty, int) or qty < 0\<close>\<close>

definition invalid_qty :: "pyval \<Rightarrow> bool" where
  "invalid_qty qty = (case as_int qty of None \<Rightarrow> True | Some n \<Rightarrow> n < 0)"

definition add_item :: "pyval \<Rightarrow> pyval \<Rightarrow> pyval \<Rightarrow> (exn + unit) \<times> pyval" where
  "add_item stock item qty =
     (if invalid_item item then (Inr (), stock)
      else if invalid_qty qty then (Inr (), stock)
      else (case (item, as_int qty) of
              (PStr name, Some n) \<Rightarrow>
                (case py_get0 stock name of
                   Inl e \<Rightarrow> (Inl e, stock)
                 | Inr old \<Rightarrow>
                     (case py_add old n of
                        Inl e \<Rightarrow> (Inl e, stock)
                      | Inr new \<Rightarrow>
                          (case py_setitem stock name new of
                             Inl e \<Rightarrow> (Inl e, stock)
                           | Inr stock' \<Rightarrow> (Inr (), stock'))))
            | _ \<Rightarrow> (Inr (), stock)))"

text \<open>The body of the \<open>try\<close> of \<open>remove_item\<close>, then the handler of \<open>KeyError\<close>.\<close>

definition remove_try :: "pyval \<Rightarrow> pystr \<Rightarrow> pyval \<Rightarrow> (exn + bool) \<times> pyval" where
  "remove_try stock item qty =
     (case py_contains stock item of
        Inl e \<Rightarrow> (Inl e, stock)
      | Inr False \<Rightarrow> (Inr False, stock)
      | Inr True \<Rightarrow>
          (case as_int qty of
             None \<Rightarrow> (Inr False, stock)
           | Some n \<Rightarrow>
               if n < 0 then (Inr False, stock)
               else
                 (case py_getitem stock item of
                    Inl e \<Rightarrow> (Inl e, stock)
                  | Inr old \<Rightarrow>
                      (case py_sub old n of
                         Inl e \<Rightarrow> (Inl e, stock)
                       | Inr new \<Rightarrow>
                           (case py_setitem stock item new of
                              Inl e \<Rightarrow> (Inl e, stock)
                            | Inr stock1 \<Rightarrow>
                                (case py_getitem stock1 item of
                                   Inl e \<Rightarrow> (Inl e, stock1)
                                 | Inr cur \<Rightarrow>
                                     (case py_le cur 0 of
                                        Inl e \<Rightarrow> (Inl e, stock1)
                                      | Inr True \<Rightarrow>
                                          (case py_delitem stock1 item of
                                             Inl e \<Rightarrow> (Inl e, stock1)
                                           | Inr stock2 \<Rightarrow> (Inr True, stock2))
                                      | Inr False \<Rightarrow> (Inr True, stock1))))))))"

definition remove_item :: "pyval \<Rightarrow> pystr \<Rightarrow> pyval \<Rightarrow> (exn + bool) \<times> pyval" where
  "remove_item stock item qty =
     (case remove_try stock item qty of
        (Inl KeyError, stock') \<Rightarrow> (Inr False, stock')
      | r \<Rightarrow> r)"

definition get_qty :: "pyval \<Rightarrow> pystr \<Rightarrow> (exn + pyval) \<times> pyval" where
  "get_qty stock item =
     (case py_contains stock item of
        Inl e \<Rightarrow> (Inl e, stock)
      | Inr False \<Rightarrow> (Inr (PInt 0), stock)
      | Inr True \<Rightarrow> (py_getitem stock item, stock))"

text \<open>
  The loop of \<open>check_low_items\<close> over \<open>STOCK_DATA.items()\<close>, with the list \<open>result\<close> it
  appends to; only a \<open>dict\<close> has \<open>items\<close>.
\<close>

fun low_loop :: "(pystr \<times> pyval) list \<Rightarrow> int \<Rightarrow> pystr list \<Rightarrow> exn + pystr list" where
  "low_loop [] threshold result = Inr result"
| "low_loop ((item, quantity) # rest) threshold result =
     (case py_lt quantity threshold of
        Inl e \<Rightarrow> Inl e
      | Inr b \<Rightarrow> low_loop rest threshold (if b then result @ [item] else result))"

fun check_low_items :: "pyval \<Rightarrow> int \<Rightarrow> (exn + pystr list) \<times> pyval" where
  "check_low_items (PDict d) threshold = (low_loop d threshold [], PDict d)"
| "check_low_items stock threshold = (Inl AttributeError, stock)"

section \<open>Files\<close>

text \<open>
  What \<open>open\<close> finds under a path: no file, a file that may not be opened, a file whose
  bytes are not UTF-8 (reading it raises \<open>UnicodeDecodeError\<close>), or a text. \<open>writable\<close>
  tells whether \<open>open(file, "w")\<close> succeeds; when it fails it raises an \<open>OSError\<close>
  (\<open>IOError\<close> is the same class), and the file system stays as it was. A write that fails
  half-way is not modelled.
\<close>

datatype fs_entry = Absent | Denied | Undecodable | Text pystr

record filesystem =
  entry :: "pystr \<Rightarrow> fs_entry"
  writable :: "pystr \<Rightarrow> bool"

text \<open>\<open>open(file, "r", encoding="utf-8")\<close> followed by \<open>f.read()\<close>\<close>

definition read_text :: "filesystem \<Rightarrow> pystr \<Rightarrow> exn + pystr" where
  "read_text fs file =
     (case entry fs file of
        Absent \<Rightarrow> Inl FileNotFoundError
      | Denied \<Rightarrow> Inl OSError
      | Undecodable \<Rightarrow> Inl UnicodeDecodeError
      | Text t \<Rightarrow> Inr t)"


text \<open>
  The body of the \<open>try\<close> of \<open>load_data\<close>, then its two handlers. \<open>json_load\<close> stands for
  \<open>json.load\<close> on the text of the file.
\<close>

definition load_try :: "(pystr \<Rightarrow> exn + pyval) \<Rightarrow> filesystem \<Rightarrow> pystr \<Rightarrow> pyval \<Rightarrow> (exn + bool) \<times> pyval" where
  "load_try json_load fs file stock =
     (case read_text fs file of
        Inl e \<Rightarrow> (Inl e, stock)
      | Inr t \<Rightarrow>
          (case json_load t of
             Inl e \<Rightarrow> (Inl e, stock)
           | Inr v \<Rightarrow> (Inr True, v)))"

definition load_data :: "(pystr \<Rightarrow> exn + pyval) \<Rightarrow> filesystem \<Rightarrow> pystr \<Rightarrow> pyval \<Rightarrow> (exn + bool) \<times> pyval" where
  "load_data json_load fs file stock =
     (case load_try json_load fs file stock of
        (Inl FileNotFoundError, stock') \<Rightarrow> (Inr False, PDict [])
      | (Inl JSONDecodeError, stock') \<Rightarrow> (Inr False, stock')
      | r \<Rightarrow> r)"



text \<open>A file system with no file, where every path may be written.\<close>

definition empty_fs :: filesystem where
  "empty_fs = \<lparr>entry = (\<lambda>p. Absent), writable = (\<lambda>p. True)\<rparr>"

section \<open>Sequences of calls and what the specification says of them\<close>

text \<open>A sequence of calls \<open>add_item(item, qty)\<close>; an exception ends it.\<close>

fun add_all :: "pyval \<Rightarrow> (pyval \<times> pyval) list \<Rightarrow> (exn + unit) \<times> pyval" where
  "add_all stock [] = (Inr (), stock)"
| "add_all stock ((item, qty) # calls) =
     (case add_item stock item qty of
        (Inl e, stock') \<Rightarrow> (Inl e, stock')
      | (Inr u, stock') \<Rightarrow> add_all stock' calls)"

text \<open>
  The specification's sum: what one call adds for \<open>name\<close> (its quantity when the call is
  valid and names \<open>name\<close>, nothing otherwise), and the sum over a sequence of calls.
\<close>

fun added :: "pystr \<Rightarrow> pyval \<times> pyval \<Rightarrow> int" where
  "added name (item, qty) =
     (if item = PStr name \<and> name \<noteq> []
      then (case as_int qty of None \<Rightarrow> 0 | Some q \<Rightarrow> if 0 \<le> q then q else 0)
      else 0)"

definition total_added :: "pystr \<Rightarrow> (pyval \<times> pyval) list \<Rightarrow> int" where
  "total_added name calls = sum_list (map (added name) calls)"

text \<open>
  The specification's low items: the names, in the order of the ledger, of the entries
  whose quantity is below the threshold.
\<close>

definition low_names :: "(pystr \<times> pyval) list \<Rightarrow> int \<Rightarrow> pystr list" where
  "low_names d threshold =
     map fst (filter (\<lambda>(item, quantity).
        case as_int quantity of None \<Rightarrow> False | Some q \<Rightarrow> q < threshold) d)"

text \<open>A ledger as the specification has it: a \<open>dict\<close> whose values are integers.\<close>

definition int_quantities :: "(pystr \<times> pyval) list \<Rightarrow> bool" where
  "int_quantities d = list_all (\<lambda>(item, quantity). as_int quantity \<noteq> None) d"

text \<open>A \<open>dict\<close> whose values are \<open>int\<close> objects, and the quantity it holds for a name.\<close>

definition int_valued :: "(pystr \<times> pyval) list \<Rightarrow> bool" where
  "int_valued d = list_all (\<lambda>(item, quantity). case quantity of PInt q \<Rightarrow> True | _ \<Rightarrow> False) d"

definition qty_of :: "(pystr \<times> pyval) list \<Rightarrow> pystr \<Rightarrow> int" where
  "qty_of d name = (case map_of d name of Some (PInt q) \<Rightarrow> q | _ \<Rightarrow> 0)"

text \<open>
  A ledger all of whose quantities are \<open>int\<close> objects that are not negative, and the
  ledgers that calls of \<open>add_item\<close>, \<open>remove_item\<close> and \<open>load_data\<close> reach from the empty
  one. A load that succeeds installs what the file holds, so the files loaded with success
  are taken to hold such a ledger.
\<close>

definition nonneg_entries :: "(pystr \<times> pyval) list \<Rightarrow> bool" where
  "nonneg_entries d =
     list_all (\<lambda>(item, quantity). case quantity of PInt q \<Rightarrow> 0 \<le> q | _ \<Rightarrow> False) d"

fun nonneg_ledger :: "pyval \<Rightarrow> bool" where
  "nonneg_ledger (PDict d) = nonneg_entries d"
| "nonneg_ledger _ = False"

inductive reachable :: "(pystr \<Rightarrow> exn + pyval) \<Rightarrow> pyval \<Rightarrow> bool" for json_load where
  start: "reachable json_load (PDict [])"
| add: "reachable json_load stock \<Longrightarrow> add_item stock item qty = (r, stock') \<Longrightarrow>
        reachable json_load stock'"
| remove: "reachable json_load stock \<Longrightarrow> remove_item stock item qty = (r, stock') \<Longrightarrow>
        reachable json_load stock'"
| load: "reachable json_load stock \<Longrightarrow> load_data json_load fs path stock = (r, stock') \<Longrightarrow>
        (r = Inr True \<longrightarrow> nonneg_ledger stock') \<Longrightarrow> reachable json_load stock'"



section \<open>Properties of the ledger operations\<close>

lemma int_valued_lookup: "int_valued d \<Longrightarrow> map_of d k = Some v \<Longrightarrow> \<exists>q. v = PInt q"
  by (induction d) (auto simp: int_valued_def split: if_splits pyval.splits)

lemma int_valued_update: "int_valued d \<Longrightarrow> int_valued (AList.update k (PInt q) d)"
  by (induction d) (auto simp: int_valued_def)

lemma add_item_int_valued:
  assumes "int_valued d"
  shows "\<exists>d'. add_item (PDict d) item qty = (Inr (), PDict d') \<and> int_valued d'
     \<and> (\<forall>name. qty_of d' name = qty_of d name + added name (item, qty))"
proof (cases "invalid_item item \<or> invalid_qty qty")
  case True
  then have "add_item (PDict d) item qty = (Inr (), PDict d)" by (auto simp: add_item_def)
  moreover have "added name (item, qty) = 0" for name
    using True by (cases item) (auto simp: invalid_qty_def split: option.splits)
  ultimately show ?thesis using assms by simp
next
  case False
  then obtain k n where k: "item = PStr k" "k \<noteq> []" and n: "as_int qty = Some n" "0 \<le> n"
    by (cases item) (auto simp: invalid_qty_def split: option.splits)
  show ?thesis
  proof (cases "map_of d k")
    case None
    then have "add_item (PDict d) item qty = (Inr (), PDict (AList.update k (PInt n) d))"
      using k n by (simp add: add_item_def invalid_qty_def)
    moreover have "qty_of (AList.update k (PInt n) d) name = qty_of d name + added name (item, qty)"
      for name using None k n by (simp add: qty_of_def update_conv')
    ultimately show ?thesis using int_valued_update[OF assms] by blast
  next
    case (Some v)
    then obtain q where q: "v = PInt q" using int_valued_lookup[OF assms] by blast
    then have "add_item (PDict d) item qty = (Inr (), PDict (AList.update k (PInt (q + n)) d))"
      using k n Some by (simp add: add_item_def invalid_qty_def)
    moreover have "qty_of (AList.update k (PInt (q + n)) d) name = qty_of d name + added name (item, qty)"
      for name using Some q k n by (simp add: qty_of_def update_conv')
    ultimately show ?thesis using int_valued_update[OF assms] by blast
  qed
qed

lemma add_all_int_valued:
  "int_valued d \<Longrightarrow> \<exists>d'. add_all (PDict d) calls = (Inr (), PDict d') \<and> int_valued d'
     \<and> (\<forall>name. qty_of d' name = qty_of d name + total_added name calls)"
proof (induction calls arbitrary: d)
  case Nil
  then show ?case by (simp add: total_added_def)
next
  case (Cons c calls)
  obtain item qty where c: "c = (item, qty)" by (cases c)
  from add_item_int_valued[OF Cons.prems, of item qty] obtain d1 where
    d1: "add_item (PDict d) item qty = (Inr (), PDict d1)" "int_valued d1"
        "\<forall>name. qty_of d1 name = qty_of d name + added name (item, qty)" by blast
  from Cons.IH[OF d1(2)] obtain d2 where
    d2: "add_all (PDict d1) calls = (Inr (), PDict d2)" "int_valued d2"
        "\<forall>name. qty_of d2 name = qty_of d1 name + total_added name calls" by blast
  have "add_all (PDict d) (c # calls) = (Inr (), PDict d2)"
    using c d1(1) d2(1) by simp
  moreover have "\<forall>name. qty_of d2 name = qty_of d name + total_added name (c # calls)"
    using d1(3) d2(3) c by (simp add: total_added_def)
  ultimately show ?case using d2(2) by blast
qed

lemma get_qty_int_valued:
  "int_valued d \<Longrightarrow> get_qty (PDict d) name = (Inr (PInt (qty_of d name)), PDict d)"
  using int_valued_lookup[of d name] by (auto simp: get_qty_def qty_of_def split: option.splits)

lemma low_loop_acc:
  "int_quantities d \<Longrightarrow> low_loop d t acc = Inr (acc @ low_names d t)"
proof (induction d arbitrary: acc)
  case Nil
  then show ?case by (simp add: low_names_def)
next
  case (Cons p d)
  obtain k v where p: "p = (k, v)" by (cases p)
  from Cons.prems p obtain q where q: "as_int v = Some q" by (auto simp: int_quantities_def)
  then have lt: "py_lt v t = Inr (q < t)" by (cases v) (auto split: if_splits)
  from Cons.prems have rest: "int_quantities d" by (simp add: int_quantities_def)
  show ?case using Cons.IH[OF rest] p q lt by (simp add: low_names_def)
qed

text \<open>
  C3. When the ledger holds \<open>item\<close> with a quantity \<open>q > 0\<close> and \<open>qty\<close> is an integer
  \<open>n \<ge> 0\<close>, \<open>remove_item\<close> returns \<open>True\<close>. If \<open>n \<ge> q\<close> the item is deleted from the
  ledger (a lookup of it finds nothing); if \<open>n < q\<close> its quantity becomes \<open>q - n\<close>, which is
  positive. Asking for more than is in stock is no failure.
\<close>

theorem remove_item_present:
  assumes "map_of d item = Some v" and "as_int v = Some q" and "0 < q"
    and "as_int qty = Some n" and "0 \<le> n"
  shows "remove_item (PDict d) item qty =
           (Inr True, PDict (if q \<le> n then AList.delete item d
                             else AList.update item (PInt (q - n)) d))
       \<and> map_of (AList.delete item d) item = None
       \<and> map_of (AList.update item (PInt (q - n)) d) item = Some (PInt (q - n))
       \<and> (n < q \<longrightarrow> 0 < q - n)"
  using assms
  by (cases v)
    (simp_all add: remove_item_def remove_try_def update_conv' delete_update_same delete_conv'
       split: if_splits)

theorem remove_item_present_witness:
  "remove_item (PDict [(str ''apple'', PInt 15), (str ''kiwi'', PInt 10)]) (str ''apple'') (PInt 100)
     = (Inr True, PDict [(str ''kiwi'', PInt 10)])
   \<and> remove_item (PDict [(str ''apple'', PInt 15), (str ''kiwi'', PInt 10)]) (str ''apple'') (PInt 3)
     = (Inr True, PDict [(str ''apple'', PInt 12), (str ''kiwi'', PInt 10)])"
proof -
  let ?d = "[(str ''apple'', PInt 15), (str ''kiwi'', PInt 10)]"
  have h: "map_of ?d (str ''apple'') = Some (PInt 15)" by simp
  have "remove_item (PDict ?d) (str ''apple'') (PInt 100)
          = (Inr True, PDict (if (15::int) \<le> 100 then AList.delete (str ''apple'') ?d
                              else AList.update (str ''apple'') (PInt (15 - 100)) ?d))"
    using remove_item_present[OF h, of 15 "PInt 100" 100] by simp
  moreover have "remove_item (PDict ?d) (str ''apple'') (PInt 3)
          = (Inr True, PDict (if (15::int) \<le> 3 then AList.delete (str ''apple'') ?d
                              else AList.update (str ''apple'') (PInt (15 - 3)) ?d))"
    using remove_item_present[OF h, of 15 "PInt 3" 3] by simp
  ultimately show ?thesis by (simp add: str_def)
qed

text \<open>
  C5. After any sequence of \<open>add_item\<close> calls on the empty ledger, no call has raised and
  \<open>get_qty(name)\<close> returns the sum of the quantities of the valid calls for \<open>name\<close> (a
  non-empty string with an integer \<open>qty \<ge> 0\<close>); invalid calls in the sequence add nothing.
  For a name with no valid call the sum is empty and \<open>get_qty\<close> returns 0. \<open>get_qty\<close> leaves
  the ledger as it is.
\<close>

theorem add_then_get_qty_is_sum:
  "\<exists>stock. add_all (PDict []) calls = (Inr (), stock)
     \<and> get_qty stock name = (Inr (PInt (total_added name calls)), stock)
     \<and> (total_added name [] = 0)"
proof -
  have "int_valued []" by (simp add: int_valued_def)
  from add_all_int_valued[OF this, of calls] obtain d' where
    d': "add_all (PDict []) calls = (Inr (), PDict d')" "int_valued d'"
        "\<forall>name. qty_of d' name = qty_of [] name + total_added name calls" by blast
  have "qty_of d' name = total_added name calls" using d'(3) by (simp add: qty_of_def)
  then show ?thesis using d'(1) get_qty_int_valued[OF d'(2), of name]
    by (simp add: total_added_def)
qed

theorem add_then_get_qty_is_sum_witness:
  "\<exists>stock. add_all (PDict []) [(PStr (str ''apple''), PInt 10), (PStr (str ''grape''), PInt (- 2)),
                                (PInt 123, PInt 10), (PStr (str ''apple''), PInt 5)] = (Inr (), stock)
     \<and> get_qty stock (str ''apple'') = (Inr (PInt 15), stock)"
  using add_then_get_qty_is_sum[of "[(PStr (str ''apple''), PInt 10), (PStr (str ''grape''), PInt (- 2)),
                                (PInt 123, PInt 10), (PStr (str ''apple''), PInt 5)]" "str ''apple''"]
  by (simp add: total_added_def str_def get_qty_def)

text \<open>
  C7. A call of \<open>add_item\<close> with an invalid argument (an item that is the empty string or
  no string, or a \<open>qty\<close> that is no integer or is negative) returns normally, raises
  nothing and leaves the ledger as it was, whatever the ledger holds. The integers are
  those of \<open>isinstance(qty, int)\<close>, which counts \<open>True\<close> and \<open>False\<close>.
\<close>

theorem add_item_invalid_unchanged:
  "invalid_item item \<or> invalid_qty qty \<Longrightarrow> add_item stock item qty = (Inr (), stock)"
  by (auto simp: add_item_def)

theorem add_item_invalid_unchanged_witness:
  "invalid_item (PInt 123) \<and> invalid_qty (PInt (- 2)) \<and> invalid_qty (PStr (str ''ten''))
   \<and> add_item (PDict [(str ''apple'', PInt 10)]) (PInt 123) (PInt 10)
       = (Inr (), PDict [(str ''apple'', PInt 10)])
   \<and> add_item (PDict [(str ''apple'', PInt 10)]) (PStr (str ''grape'')) (PInt (- 2))
       = (Inr (), PDict [(str ''apple'', PInt 10)])
   \<and> add_item (PList []) (PStr []) (PInt 1) = (Inr (), PList [])"
proof -
  have h1: "invalid_item (PInt 123) \<or> invalid_qty (PInt 10)" by simp
  have h2: "invalid_item (PStr (str ''grape'')) \<or> invalid_qty (PInt (- 2))"
    by (simp add: invalid_qty_def)
  have h3: "invalid_item (PStr []) \<or> invalid_qty (PInt 1)" by simp
  show ?thesis
    using add_item_invalid_unchanged[OF h1, of "PDict [(str ''apple'', PInt 10)]"]
      add_item_invalid_unchanged[OF h2, of "PDict [(str ''apple'', PInt 10)]"]
      add_item_invalid_unchanged[OF h3, of "PList []"]
    by (simp add: invalid_qty_def)
qed

text \<open>
  C8. \<open>remove_item\<close> returns \<open>False\<close> and leaves the ledger as it was when \<open>item\<close> is not
  in the ledger, and also when \<open>item\<close> is in the ledger and \<open>qty\<close> is no integer or is
  negative.
\<close>

theorem remove_item_refused:
  "py_contains stock item = Inr False
     \<or> (py_contains stock item = Inr True \<and> invalid_qty qty)
   \<Longrightarrow> remove_item stock item qty = (Inr False, stock)"
  by (auto simp: remove_item_def remove_try_def invalid_qty_def split: option.splits)

theorem remove_item_refused_witness:
  "py_contains (PDict [(str ''apple'', PInt 10)]) (str ''pear'') = Inr False
   \<and> remove_item (PDict [(str ''apple'', PInt 10)]) (str ''pear'') (PInt 1)
       = (Inr False, PDict [(str ''apple'', PInt 10)])
   \<and> py_contains (PDict [(str ''apple'', PInt 10)]) (str ''apple'') = Inr True
   \<and> invalid_qty (PInt (- 1))
   \<and> remove_item (PDict [(str ''apple'', PInt 10)]) (str ''apple'') (PInt (- 1))
       = (Inr False, PDict [(str ''apple'', PInt 10)])"
proof -
  let ?s = "PDict [(str ''apple'', PInt 10)]"
  have h1: "py_contains ?s (str ''pear'') = Inr False" by (simp add: str_def)
  have h2: "py_contains ?s (str ''apple'') = Inr True \<and> invalid_qty (PInt (- 1))"
    by (simp add: invalid_qty_def)
  show ?thesis
    using h1 h2 remove_item_refused[OF disjI1, OF h1, of "PInt 1"]
      remove_item_refused[OF disjI2, OF h2]
    by simp
qed

text \<open>
  C9. On a ledger whose quantities are integers, \<open>check_low_items(threshold)\<close> returns the
  names of exactly the entries whose quantity is less than \<open>threshold\<close>, in the order of
  the ledger, and leaves the ledger as it is; on the empty ledger it returns the empty
  list.
\<close>

theorem check_low_items_exact:
  "(int_quantities d \<longrightarrow> check_low_items (PDict d) threshold = (Inr (low_names d threshold), PDict d))
   \<and> check_low_items (PDict []) threshold = (Inr [], PDict [])"
  using low_loop_acc[of d threshold "[]"] by simp

theorem check_low_items_exact_witness:
  "int_quantities [(str ''banana'', PInt 3), (str ''kiwi'', PInt 10), (str ''fig'', PInt 0)]
   \<and> check_low_items (PDict [(str ''banana'', PInt 3), (str ''kiwi'', PInt 10), (str ''fig'', PInt 0)]) 5
       = (Inr [str ''banana'', str ''fig''],
          PDict [(str ''banana'', PInt 3), (str ''kiwi'', PInt 10), (str ''fig'', PInt 0)])"
proof -
  let ?d = "[(str ''banana'', PInt 3), (str ''kiwi'', PInt 10), (str ''fig'', PInt 0)]"
  have h: "int_quantities ?d" by (simp add: int_quantities_def)
  show ?thesis
    using h check_low_items_exact[of ?d 5, THEN conjunct1, rule_format, OF h]
    by (simp add: low_names_def)
qed

lemma nonneg_lookup: "nonneg_entries d \<Longrightarrow> map_of d k = Some v \<Longrightarrow> \<exists>q. v = PInt q \<and> 0 \<le> q"
  by (induction d) (auto simp: nonneg_entries_def split: if_splits pyval.splits)

lemma nonneg_update: "nonneg_entries d \<Longrightarrow> 0 \<le> q \<Longrightarrow> nonneg_entries (AList.update k (PInt q) d)"
  by (induction d) (auto simp: nonneg_entries_def)

lemma nonneg_delete: "nonneg_entries d \<Longrightarrow> nonneg_entries (AList.delete k d)"
  by (induction d) (auto simp: nonneg_entries_def)

lemma add_item_nonneg:
  assumes "nonneg_entries d" and "add_item (PDict d) item qty = (r, stock')"
  shows "\<exists>d'. stock' = PDict d' \<and> nonneg_entries d'"
proof (cases "invalid_item item \<or> invalid_qty qty")
  case True
  then have "add_item (PDict d) item qty = (Inr (), PDict d)" by (auto simp: add_item_def)
  then show ?thesis using assms by simp
next
  case False
  then obtain k n where k: "item = PStr k" "k \<noteq> []" and n: "as_int qty = Some n" "0 \<le> n"
    by (cases item) (auto simp: invalid_qty_def split: option.splits)
  show ?thesis
  proof (cases "map_of d k")
    case None
    then have "stock' = PDict (AList.update k (PInt n) d)"
      using k n assms(2) by (simp add: add_item_def invalid_qty_def)
    then show ?thesis using nonneg_update[OF assms(1) n(2)] by blast
  next
    case (Some v)
    then obtain q where q: "v = PInt q" "0 \<le> q" using nonneg_lookup[OF assms(1)] by blast
    then have "stock' = PDict (AList.update k (PInt (q + n)) d)"
      using k n Some assms(2) by (simp add: add_item_def invalid_qty_def)
    moreover have "0 \<le> q + n" using q n by simp
    ultimately show ?thesis using nonneg_update[OF assms(1)] by blast
  qed
qed

lemma remove_item_nonneg:
  assumes "nonneg_entries d" and "remove_item (PDict d) item qty = (r, stock')"
  shows "\<exists>d'. stock' = PDict d' \<and> nonneg_entries d'
     \<and> (r = Inr True \<longrightarrow>
          (case map_of d' item of None \<Rightarrow> True | Some v \<Rightarrow> \<exists>q. v = PInt q \<and> 0 < q))"
proof (cases "map_of d item")
  case None
  then show ?thesis using assms by (auto simp: remove_item_def remove_try_def)
next
  case (Some v)
  note present = this
  then obtain q where q: "v = PInt q" "0 \<le> q" using nonneg_lookup[OF assms(1)] by blast
  show ?thesis
  proof (cases "as_int qty")
    case None
    then show ?thesis using assms present by (auto simp: remove_item_def remove_try_def)
  next
    case (Some n)
    show ?thesis
    proof (cases "n < 0")
      case True
      then show ?thesis using assms Some present by (auto simp: remove_item_def remove_try_def)
    next
      case False
      show ?thesis
      proof (cases "q \<le> n")
        case True
        then have "stock' = PDict (AList.delete item d)" "r = Inr True"
          using assms(2) Some present q False
          by (simp_all add: remove_item_def remove_try_def update_conv' delete_update_same)
        then show ?thesis using nonneg_delete[OF assms(1)] by (simp add: delete_conv')
      next
        case less: False
        then have "stock' = PDict (AList.update item (PInt (q - n)) d)" "r = Inr True"
          using assms(2) Some present q False
          by (simp_all add: remove_item_def remove_try_def update_conv')
        moreover have "0 \<le> q - n" using less by simp
        ultimately show ?thesis using nonneg_update[OF assms(1)] less by (simp add: update_conv')
      qed
    qed
  qed
qed

lemma nonneg_ledger_iff: "nonneg_ledger s \<longleftrightarrow> (\<exists>d. s = PDict d \<and> nonneg_entries d)"
  by (cases s) simp_all

lemma load_data_cases:
  "load_data dec fs path stock = (r, stock') \<Longrightarrow> r = Inr True \<or> stock' = stock \<or> stock' = PDict []"
  by (auto simp: load_data_def load_try_def read_text_def
        split: fs_entry.splits sum.splits exn.splits)

lemma reachable_nonneg: "reachable dec stock \<Longrightarrow> nonneg_ledger stock"
proof (induction rule: reachable.induct)
  case start
  then show ?case by (simp add: nonneg_entries_def)
next
  case (add stock item qty r stock')
  then show ?case using add_item_nonneg unfolding nonneg_ledger_iff by blast
next
  case (remove stock item qty r stock')
  then show ?case using remove_item_nonneg unfolding nonneg_ledger_iff by blast
next
  case (load stock fs path r stock')
  from load_data_cases[OF load.hyps(2)] show ?case
    using load by (auto simp: nonneg_entries_def)
qed

text \<open>
  C1, as the specification states it, fails: \<open>add_item\<close> accepts the quantity 0 (its guard
  is \<open>qty < 0\<close>), and on the empty ledger \<open>add_item("nut", 0)\<close> leaves the item \<open>nut\<close>
  present with quantity 0.
\<close>

theorem add_item_zero_stored:
  "add_item (PDict []) (PStr (str ''nut'')) (PInt 0) = (Inr (), PDict [(str ''nut'', PInt 0)])
   \<and> get_qty (PDict [(str ''nut'', PInt 0)]) (str ''nut'')
       = (Inr (PInt 0), PDict [(str ''nut'', PInt 0)])
   \<and> py_contains (PDict [(str ''nut'', PInt 0)]) (str ''nut'') = Inr True"
  by (simp add: add_item_def get_qty_def invalid_qty_def str_def)

text \<open>
  C1, amended. In every ledger reached from the empty one by calls of \<open>add_item\<close>,
  \<open>remove_item\<close> and \<open>load_data\<close> (the files loaded with success holding a ledger of
  non-negative integers), every quantity is an integer that is not negative; and after a
  call of \<open>remove_item\<close> that returns \<open>True\<close>, the item removed from is absent or has a
  quantity above zero.
\<close>

theorem reachable_quantities_nonneg:
  assumes "reachable json_load stock"
  shows "nonneg_ledger stock
     \<and> (remove_item stock item qty = (Inr True, stock') \<longrightarrow>
          nonneg_ledger stock'
          \<and> (case py_getitem stock' item of Inr (PInt q) \<Rightarrow> 0 < q | Inr v \<Rightarrow> False | Inl e \<Rightarrow> e = KeyError))"
proof -
  from reachable_nonneg[OF assms] obtain d where d: "stock = PDict d" "nonneg_entries d"
    unfolding nonneg_ledger_iff by blast
  show ?thesis
  proof (cases "remove_item stock item qty = (Inr True, stock')")
    case False
    then show ?thesis using d by simp
  next
    case True
    from remove_item_nonneg[OF d(2) True[unfolded d(1)]] obtain d' where
      d': "stock' = PDict d'" "nonneg_entries d'"
          "case map_of d' item of None \<Rightarrow> True | Some v \<Rightarrow> \<exists>q. v = PInt q \<and> 0 < q"
      by blast
    then show ?thesis using d by (auto split: option.splits)
  qed
qed

theorem reachable_quantities_nonneg_witness:
  "reachable json_loads (PDict [(str ''nut'', PInt 0)])
   \<and> nonneg_ledger (PDict [(str ''nut'', PInt 0)])
   \<and> remove_item (PDict [(str ''nut'', PInt 0)]) (str ''nut'') (PInt 0) = (Inr True, PDict [])
   \<and> nonneg_ledger (PDict [])"
proof -
  let ?s = "PDict [(str ''nut'', PInt 0)]"
  have a: "add_item (PDict []) (PStr (str ''nut'')) (PInt 0) = (Inr (), ?s)"
    by (simp add: add_item_def invalid_qty_def str_def)
  have r: "reachable json_loads ?s"
    by (rule reachable.add[OF reachable.start a])
  have rm: "remove_item ?s (str ''nut'') (PInt 0) = (Inr True, PDict [])"
    by (simp add: remove_item_def remove_try_def)
  show ?thesis
    using r rm reachable_quantities_nonneg[OF r, of "str ''nut''" "PInt 0" "PDict []"]
    by simp
qed



text \<open>
  C6. When no file exists under the path, \<open>load_data\<close> returns \<open>False\<close> and the ledger is
  empty afterwards, whatever it held.
\<close>

theorem load_data_missing_resets:
  "entry fs path = Absent \<Longrightarrow> load_data json_load fs path stock = (Inr False, PDict [])"
  by (simp add: load_data_def load_try_def read_text_def)

theorem load_data_missing_resets_witness:
  "entry empty_fs (str ''inventory.json'') = Absent
   \<and> load_data json_loads empty_fs (str ''inventory.json'') (PDict [(str ''apple'', PInt 7)])
     = (Inr False, PDict [])"
proof -
  have e: "entry empty_fs (str ''inventory.json'') = Absent" by (simp add: empty_fs_def)
  show ?thesis
    using e load_data_missing_resets[OF e, of json_loads "PDict [(str ''apple'', PInt 7)]"]
    by simp
qed



section \<open>Properties of the JSON codec\<close>

subsection \<open>Escapes\<close>




lemma length_hex4 [simp]: "length (hex4 n) = 4"
  by (simp add: hex4_def)

lemma drop_hex4: "drop 4 (hex4 n @ t) = t"
  by simp




















subsection \<open>Integers\<close>









subsection \<open>Objects\<close>
















section \<open>Saving and loading\<close>






end
